theory Spec2Isabelle
  imports Main
begin

section \<open>Python values, errors and the module namespace\<close>

text \<open>
  The configuration module \<^verbatim>\<open>doc/conf.py\<close> is a flat sequence of module-level
  statements. The values it handles are strings, tuples, lists and dictionaries.
  A dictionary is kept as an association list in insertion order, as Python keeps it.
\<close>

datatype pyval =
    Str string
  | Tuple "pyval list"
  | PyList "pyval list"
  | Dict "(pyval \<times> pyval) list"

datatype error = NameError string | TypeError | AttributeError

type_synonym namespace = "string \<rightharpoonup> pyval"

definition bind_result :: "error + 'a \<Rightarrow> ('a \<Rightarrow> error + 'b) \<Rightarrow> error + 'b" where
  "bind_result r f = (case r of Inl e \<Rightarrow> Inl e | Inr x \<Rightarrow> f x)"

text \<open>Reading a name that is not bound raises \<^verbatim>\<open>NameError\<close>.\<close>

definition lookup :: "namespace \<Rightarrow> string \<Rightarrow> error + pyval" where
  "lookup ns x = (case ns x of None \<Rightarrow> Inl (NameError x) | Some v \<Rightarrow> Inr v)"

definition assign :: "string \<Rightarrow> pyval \<Rightarrow> namespace \<Rightarrow> error + namespace" where
  "assign x v ns = Inr (ns(x \<mapsto> v))"

subsection \<open>Operators and methods used by the module\<close>

text \<open>\<^verbatim>\<open>a + b\<close>: concatenation of two values of the same sequence type.\<close>

fun py_add :: "pyval \<Rightarrow> pyval \<Rightarrow> error + pyval" where
  "py_add (Str a) (Str b) = Inr (Str (a @ b))"
| "py_add (Tuple a) (Tuple b) = Inr (Tuple (a @ b))"
| "py_add (PyList a) (PyList b) = Inr (PyList (a @ b))"
| "py_add _ _ = Inl TypeError"

text \<open>The elements an iteration over a value yields.\<close>

fun py_iter :: "pyval \<Rightarrow> pyval list" where
  "py_iter (Str s) = map (\<lambda>c. Str [c]) s"
| "py_iter (Tuple xs) = xs"
| "py_iter (PyList xs) = xs"
| "py_iter (Dict d) = map fst d"

text \<open>
  \<^verbatim>\<open>a += b\<close>: a list is extended by the elements of any iterable; the other types
  have no in-place addition and fall back on \<^verbatim>\<open>a + b\<close>.
\<close>

fun py_iadd :: "pyval \<Rightarrow> pyval \<Rightarrow> error + pyval" where
  "py_iadd (PyList a) b = Inr (PyList (a @ py_iter b))"
| "py_iadd a b = py_add a b"

text \<open>\<^verbatim>\<open>d[k] = v\<close>: an existing key keeps its place, a new key goes to the end.\<close>

fun dict_setitem :: "pyval \<Rightarrow> pyval \<Rightarrow> (pyval \<times> pyval) list \<Rightarrow> (pyval \<times> pyval) list" where
  "dict_setitem k v [] = [(k, v)]"
| "dict_setitem k v ((k', v') # d) =
     (if k' = k then (k', v) # d else (k', v') # dict_setitem k v d)"

text \<open>\<^verbatim>\<open>d.get(k)\<close>: the value stored under a key, if any.\<close>

fun dict_get :: "(pyval \<times> pyval) list \<Rightarrow> pyval \<Rightarrow> pyval option" where
  "dict_get [] k = None"
| "dict_get ((k', v') # d) k = (if k' = k then Some v' else dict_get d k)"

text \<open>\<^verbatim>\<open>d.update(e)\<close>: the entries of \<open>e\<close> are stored into \<open>d\<close> one after the other.\<close>

fun dict_update :: "(pyval \<times> pyval) list \<Rightarrow> (pyval \<times> pyval) list \<Rightarrow> (pyval \<times> pyval) list" where
  "dict_update d [] = d"
| "dict_update d ((k, v) # e) = dict_update (dict_setitem k v d) e"

text \<open>A dictionary display \<^verbatim>\<open>{k1: v1, ...}\<close> stores its entries into an empty dictionary.\<close>

definition dict_literal :: "(pyval \<times> pyval) list \<Rightarrow> (pyval \<times> pyval) list" where
  "dict_literal es = dict_update [] es"

text \<open>
  Looking up the attribute \<^verbatim>\<open>update\<close>: only a dictionary has it. The result is the
  content of the dictionary the method is bound to.
\<close>

fun getattr_update :: "pyval \<Rightarrow> error + (pyval \<times> pyval) list" where
  "getattr_update (Dict d) = Inr d"
| "getattr_update _ = Inl AttributeError"

section \<open>The statements of \<^verbatim>\<open>doc/conf.py\<close>\<close>

definition set_project :: "namespace \<Rightarrow> error + namespace" where
  "set_project = assign ''project'' (Str ''HoloPlot'')"

definition set_authors :: "namespace \<Rightarrow> error + namespace" where
  "set_authors = assign ''authors'' (Str ''Philipp Rudiger'')"

definition set_copyright :: "namespace \<Rightarrow> error + namespace" where
  "set_copyright ns =
     bind_result (lookup ns ''authors'') (\<lambda>authors.
     bind_result (py_add (Str ''2017 '') authors) (\<lambda>v.
     assign ''copyright'' v ns))"

definition set_description :: "namespace \<Rightarrow> error + namespace" where
  "set_description = assign ''description''
     (Str ''A high-level plotting API for the PyData ecosystem built on HoloViews'')"

definition set_version :: "namespace \<Rightarrow> error + namespace" where
  "set_version = assign ''version'' (Str ''0.0.1'')"

definition set_release :: "namespace \<Rightarrow> error + namespace" where
  "set_release = assign ''release'' (Str ''0.0.1'')"

text \<open>\<^verbatim>\<open>html_static_path += ['_static']\<close>\<close>

definition extend_html_static_path :: "namespace \<Rightarrow> error + namespace" where
  "extend_html_static_path ns =
     bind_result (lookup ns ''html_static_path'') (\<lambda>p.
     bind_result (py_iadd p (PyList [Str ''_static''])) (\<lambda>v.
     assign ''html_static_path'' v ns))"

definition set_html_theme :: "namespace \<Rightarrow> error + namespace" where
  "set_html_theme = assign ''html_theme'' (Str ''sphinx_ioam_theme'')"

definition set_html_theme_options :: "namespace \<Rightarrow> error + namespace" where
  "set_html_theme_options = assign ''html_theme_options''
     (Dict (dict_literal
       [(Str ''logo'', Str ''pyviz-logo.png''),
        (Str ''favicon'', Str ''favicon.ico'')]))"

text \<open>The tuple display bound to \<^verbatim>\<open>_NAV\<close>.\<close>

definition NAV :: pyval where
  "NAV = Tuple
     [Tuple [Str ''Getting Started'', Str ''getting_started/index''],
      Tuple [Str ''User Guide'', Str ''user_guide/index''],
      Tuple [Str ''About'', Str ''about'']]"

definition set_NAV :: "namespace \<Rightarrow> error + namespace" where
  "set_NAV = assign ''_NAV'' NAV"

text \<open>The tuple display stored under \<^verbatim>\<open>'SOCIAL'\<close>.\<close>

definition SOCIAL :: pyval where
  "SOCIAL = Tuple
     [Tuple [Str ''Gitter'', Str ''//gitter.im/ioam/holoviews''],
      Tuple [Str ''Github'', Str ''//github.com/pyviz/holoplot'']]"

text \<open>
  \<^verbatim>\<open>html_context.update({...})\<close>: the name, then the attribute, then the argument
  are evaluated, and the call stores the entries of the argument into the dictionary
  (which the name \<^verbatim>\<open>html_context\<close> still refers to).
\<close>

definition update_html_context :: "namespace \<Rightarrow> error + namespace" where
  "update_html_context ns =
     bind_result (lookup ns ''html_context'') (\<lambda>c.
     bind_result (getattr_update c) (\<lambda>d.
     bind_result (lookup ns ''project'') (\<lambda>project.
     bind_result (lookup ns ''description'') (\<lambda>description.
     bind_result (lookup ns ''authors'') (\<lambda>authors.
     bind_result (lookup ns ''version'') (\<lambda>version.
     bind_result (lookup ns ''_NAV'') (\<lambda>nav1.
     bind_result (lookup ns ''_NAV'') (\<lambda>nav2.
     assign ''html_context'' (Dict (dict_update d (dict_literal
       [(Str ''PROJECT'', project),
        (Str ''DESCRIPTION'', description),
        (Str ''AUTHOR'', authors),
        (Str ''WEBSITE_SERVER'', Str ''https://pyviz.github.io/holoplot''),
        (Str ''VERSION'', version),
        (Str ''NAV'', nav1),
        (Str ''LINKS'', nav2),
        (Str ''SOCIAL'', SOCIAL)]))) ns))))))))"

text \<open>Statements run in order; the first error ends the load.\<close>

fun exec :: "(namespace \<Rightarrow> error + namespace) list \<Rightarrow> namespace \<Rightarrow> error + namespace" where
  "exec [] ns = Inr ns"
| "exec (s # ss) ns = bind_result (s ns) (exec ss)"

text \<open>
  Loading the module. \<open>shared\<close> holds the names that
  \<^verbatim>\<open>from nbsite.shared_conf import *\<close> binds; the statements of the file follow.
\<close>

definition conf :: "namespace \<Rightarrow> error + namespace" where
  "conf shared = exec
     [set_project, set_authors, set_copyright, set_description,
      set_version, set_release,
      extend_html_static_path, set_html_theme, set_html_theme_options,
      set_NAV, update_html_context] shared"

section \<open>Reading the loaded module\<close>

text \<open>The names bound once the load is over; none when the load raised.\<close>

definition bound_names :: "error + namespace \<Rightarrow> namespace" where
  "bound_names r = (case r of Inl e \<Rightarrow> Map.empty | Inr m \<Rightarrow> m)"

text \<open>\<^verbatim>\<open>html_context.get(k)\<close> in a namespace.\<close>

definition html_context_get :: "namespace \<Rightarrow> pyval \<Rightarrow> pyval option" where
  "html_context_get m k =
     (case m ''html_context'' of Some (Dict c) \<Rightarrow> dict_get c k | _ \<Rightarrow> None)"

text \<open>\<^verbatim>\<open>len(v)\<close>\<close>

fun py_len :: "pyval \<Rightarrow> nat" where
  "py_len (Str s) = length s"
| "py_len (Tuple xs) = length xs"
| "py_len (PyList xs) = length xs"
| "py_len (Dict d) = length d"

text \<open>The keys of the dictionary display passed to \<^verbatim>\<open>html_context.update\<close>, in order.\<close>

definition context_keys :: "pyval list" where
  "context_keys =
     [Str ''PROJECT'', Str ''DESCRIPTION'', Str ''AUTHOR'', Str ''WEBSITE_SERVER'',
      Str ''VERSION'', Str ''NAV'', Str ''LINKS'', Str ''SOCIAL'']"



subsection \<open>Shapes of values\<close>

text \<open>A two-element tuple of strings.\<close>

fun is_pair :: "pyval \<Rightarrow> bool" where
  "is_pair (Tuple [Str a, Str b]) = True"
| "is_pair _ = False"

text \<open>A two-element tuple of non-empty strings.\<close>

fun is_nonempty_pair :: "pyval \<Rightarrow> bool" where
  "is_nonempty_pair (Tuple [Str a, Str b]) = (a \<noteq> [] \<and> b \<noteq> [])"
| "is_nonempty_pair _ = False"

text \<open>\<^verbatim>\<open>s.split(c)\<close>: the pieces of \<open>s\<close> between the occurrences of \<open>c\<close>.\<close>

fun split_on :: "char \<Rightarrow> string \<Rightarrow> string list" where
  "split_on c [] = [[]]"
| "split_on c (x # xs) =
     (if x = c then [] # split_on c xs
      else (case split_on c xs of [] \<Rightarrow> [[x]] | p # ps \<Rightarrow> (x # p) # ps))"

definition is_digit :: "char \<Rightarrow> bool" where
  "is_digit c = (c \<in> set ''0123456789'')"

text \<open>Dotted-numeric: one or more non-empty runs of digits, separated by single dots.\<close>

definition dotted_numeric :: "string \<Rightarrow> bool" where
  "dotted_numeric s = list_all (\<lambda>p. p \<noteq> [] \<and> list_all is_digit p) (split_on CHR ''.'' s)"

subsection \<open>Example shared defaults\<close>

definition example_static_path :: "pyval list" where
  "example_static_path = [Str ''/nbsite/_shared_static'']"

definition example_context :: "(pyval \<times> pyval) list" where
  "example_context =
     [(Str ''js_includes'', PyList [Str ''nbsite.js'', Str ''require.js'']),
      (Str ''VERSION'', Str ''9.9''),
      (Str ''css_includes'', PyList [Str ''nbsite.css''])]"

definition example_shared :: namespace where
  "example_shared =
     [''html_static_path'' \<mapsto> PyList example_static_path,
      ''html_context'' \<mapsto> Dict example_context,
      ''html_theme'' \<mapsto> Str ''alabaster'']"


text \<open>Defaults with nothing in the static path and in the context.\<close>

definition example_bare :: namespace where
  "example_bare = [''html_static_path'' \<mapsto> PyList [], ''html_context'' \<mapsto> Dict []]"

section \<open>Properties\<close>

subsection \<open>Dictionaries\<close>

lemma dict_get_setitem:
  "dict_get (dict_setitem k v d) k' = (if k' = k then Some v else dict_get d k')"
  by (induction d) auto

lemma dict_get_update_other:
  "k \<notin> fst ` set e \<Longrightarrow> dict_get (dict_update d e) k = dict_get d k"
  by (induction d e rule: dict_update.induct) (auto simp: dict_get_setitem)

subsection \<open>The outcome of a load\<close>

text \<open>
  The load depends on the shared defaults through \<^verbatim>\<open>html_static_path\<close> and
  \<^verbatim>\<open>html_context\<close> only; every other name the file binds is bound to a constant.
\<close>

lemma conf_unfold:
  "conf shared =
     (case shared ''html_static_path'' of
        None \<Rightarrow> Inl (NameError ''html_static_path'')
      | Some p \<Rightarrow>
          (case py_iadd p (PyList [Str ''_static'']) of
             Inl e \<Rightarrow> Inl e
           | Inr p' \<Rightarrow>
               (case shared ''html_context'' of
                  None \<Rightarrow> Inl (NameError ''html_context'')
                | Some c \<Rightarrow>
                    (case getattr_update c of
                       Inl e \<Rightarrow> Inl e
                     | Inr d \<Rightarrow> Inr (shared
                         (''project'' \<mapsto> Str ''HoloPlot'',
                          ''authors'' \<mapsto> Str ''Philipp Rudiger'',
                          ''copyright'' \<mapsto> Str ''2017 Philipp Rudiger'',
                          ''description'' \<mapsto> Str ''A high-level plotting API for the PyData ecosystem built on HoloViews'',
                          ''version'' \<mapsto> Str ''0.0.1'',
                          ''release'' \<mapsto> Str ''0.0.1'',
                          ''html_static_path'' \<mapsto> p',
                          ''html_theme'' \<mapsto> Str ''sphinx_ioam_theme'',
                          ''html_theme_options'' \<mapsto> Dict [(Str ''logo'', Str ''pyviz-logo.png''), (Str ''favicon'', Str ''favicon.ico'')],
                          ''_NAV'' \<mapsto> NAV,
                          ''html_context'' \<mapsto> Dict (dict_update d
                             [(Str ''PROJECT'', Str ''HoloPlot''),
                              (Str ''DESCRIPTION'', Str ''A high-level plotting API for the PyData ecosystem built on HoloViews''),
                              (Str ''AUTHOR'', Str ''Philipp Rudiger''),
                              (Str ''WEBSITE_SERVER'', Str ''https://pyviz.github.io/holoplot''),
                              (Str ''VERSION'', Str ''0.0.1''),
                              (Str ''NAV'', NAV),
                              (Str ''LINKS'', NAV),
                              (Str ''SOCIAL'', SOCIAL)])))))))"
  by (simp add: conf_def set_project_def set_authors_def set_copyright_def set_description_def
      set_version_def set_release_def extend_html_static_path_def set_html_theme_def
      set_html_theme_options_def set_NAV_def update_html_context_def
      bind_result_def lookup_def assign_def dict_literal_def
      split: option.splits sum.splits)

lemma example_shared_path:
  "example_shared ''html_static_path'' = Some (PyList example_static_path)"
  by (simp add: example_shared_def)

lemma example_shared_context:
  "example_shared ''html_context'' = Some (Dict example_context)"
  by (simp add: example_shared_def)

subsection \<open>Claims\<close>



text \<open>
  C6. The module binds \<^verbatim>\<open>project\<close> to \<^verbatim>\<open>"HoloPlot"\<close> and \<^verbatim>\<open>version\<close> to
  \<^verbatim>\<open>"0.0.1"\<close>; after the load \<^verbatim>\<open>html_context['PROJECT']\<close> is \<^verbatim>\<open>"HoloPlot"\<close> and
  \<^verbatim>\<open>html_context['VERSION']\<close> is \<^verbatim>\<open>"0.0.1"\<close>.
\<close>

theorem context_project_version:
  assumes "shared ''html_static_path'' = Some (PyList sp)"
    and "shared ''html_context'' = Some (Dict ctx)"
  shows "\<exists>m. conf shared = Inr m \<and>
           m ''project'' = Some (Str ''HoloPlot'') \<and>
           m ''version'' = Some (Str ''0.0.1'') \<and>
           html_context_get m (Str ''PROJECT'') = Some (Str ''HoloPlot'') \<and>
           html_context_get m (Str ''VERSION'') = Some (Str ''0.0.1'')"
  using assms by (simp add: conf_unfold html_context_get_def dict_get_setitem)

theorem context_project_version_witness:
  "example_shared ''html_static_path'' = Some (PyList example_static_path) \<and>
   example_shared ''html_context'' = Some (Dict example_context) \<and>
   (\<exists>m. conf example_shared = Inr m \<and>
      m ''project'' = Some (Str ''HoloPlot'') \<and>
      m ''version'' = Some (Str ''0.0.1'') \<and>
      html_context_get m (Str ''PROJECT'') = Some (Str ''HoloPlot'') \<and>
      html_context_get m (Str ''VERSION'') = Some (Str ''0.0.1''))"
  using example_shared_path example_shared_context
    context_project_version [OF example_shared_path example_shared_context]
  by simp

text \<open>
  C10. After the load \<^verbatim>\<open>copyright\<close> is \<^verbatim>\<open>"2017 "\<close> followed by \<^verbatim>\<open>authors\<close>, that is
  \<^verbatim>\<open>"2017 Philipp Rudiger"\<close>, and \<^verbatim>\<open>version\<close> equals \<^verbatim>\<open>release\<close>.
\<close>

theorem copyright_and_release:
  assumes "shared ''html_static_path'' = Some (PyList sp)"
    and "shared ''html_context'' = Some (Dict ctx)"
  shows "\<exists>m a v. conf shared = Inr m \<and>
           m ''authors'' = Some (Str a) \<and>
           m ''copyright'' = Some (Str (''2017 '' @ a)) \<and>
           m ''copyright'' = Some (Str ''2017 Philipp Rudiger'') \<and>
           m ''version'' = Some v \<and> m ''release'' = Some v"
  using assms by (simp add: conf_unfold)

theorem copyright_and_release_witness:
  "example_shared ''html_static_path'' = Some (PyList example_static_path) \<and>
   example_shared ''html_context'' = Some (Dict example_context) \<and>
   (\<exists>m a v. conf example_shared = Inr m \<and>
      m ''authors'' = Some (Str a) \<and>
      m ''copyright'' = Some (Str (''2017 '' @ a)) \<and>
      m ''copyright'' = Some (Str ''2017 Philipp Rudiger'') \<and>
      m ''version'' = Some v \<and> m ''release'' = Some v)"
  using example_shared_path example_shared_context
    copyright_and_release [OF example_shared_path example_shared_context]
  by simp

text \<open>
  C3. After the load \<^verbatim>\<open>html_context['NAV']\<close> and \<^verbatim>\<open>html_context['LINKS']\<close> hold the
  same value, the one bound to \<^verbatim>\<open>_NAV\<close>.
\<close>

theorem nav_links_same_value:
  assumes "shared ''html_static_path'' = Some (PyList sp)"
    and "shared ''html_context'' = Some (Dict ctx)"
  shows "\<exists>m v. conf shared = Inr m \<and>
           m ''_NAV'' = Some v \<and>
           html_context_get m (Str ''NAV'') = Some v \<and>
           html_context_get m (Str ''LINKS'') = Some v"
  using assms by (simp add: conf_unfold html_context_get_def dict_get_setitem)

theorem nav_links_same_value_witness:
  "example_shared ''html_static_path'' = Some (PyList example_static_path) \<and>
   example_shared ''html_context'' = Some (Dict example_context) \<and>
   (\<exists>m v. conf example_shared = Inr m \<and>
      m ''_NAV'' = Some v \<and>
      html_context_get m (Str ''NAV'') = Some v \<and>
      html_context_get m (Str ''LINKS'') = Some v)"
  using example_shared_path example_shared_context
    nav_links_same_value [OF example_shared_path example_shared_context]
  by simp

text \<open>
  C4. Every element of the tuple bound to \<^verbatim>\<open>_NAV\<close> and every element of the tuple
  stored under \<^verbatim>\<open>'SOCIAL'\<close> is a two-element tuple of non-empty strings.
\<close>

theorem nav_social_nonempty_pairs:
  assumes "shared ''html_static_path'' = Some (PyList sp)"
    and "shared ''html_context'' = Some (Dict ctx)"
  shows "\<exists>m nav social. conf shared = Inr m \<and>
           m ''_NAV'' = Some (Tuple nav) \<and> list_all is_nonempty_pair nav \<and>
           html_context_get m (Str ''SOCIAL'') = Some (Tuple social) \<and>
           list_all is_nonempty_pair social"
  using assms
  by (simp add: conf_unfold html_context_get_def dict_get_setitem NAV_def SOCIAL_def)

theorem nav_social_nonempty_pairs_witness:
  "example_shared ''html_static_path'' = Some (PyList example_static_path) \<and>
   example_shared ''html_context'' = Some (Dict example_context) \<and>
   (\<exists>m nav social. conf example_shared = Inr m \<and>
      m ''_NAV'' = Some (Tuple nav) \<and> list_all is_nonempty_pair nav \<and>
      html_context_get m (Str ''SOCIAL'') = Some (Tuple social) \<and>
      list_all is_nonempty_pair social)"
  using example_shared_path example_shared_context
    nav_social_nonempty_pairs [OF example_shared_path example_shared_context]
  by simp

text \<open>
  C5. After the load \<^verbatim>\<open>version\<close> and \<^verbatim>\<open>release\<close> are non-empty strings made of
  runs of digits separated by dots.
\<close>

theorem version_release_dotted_numeric:
  assumes "shared ''html_static_path'' = Some (PyList sp)"
    and "shared ''html_context'' = Some (Dict ctx)"
  shows "\<exists>m v r. conf shared = Inr m \<and>
           m ''version'' = Some (Str v) \<and> v \<noteq> [] \<and> dotted_numeric v \<and>
           m ''release'' = Some (Str r) \<and> r \<noteq> [] \<and> dotted_numeric r"
  using assms by (simp add: conf_unfold dotted_numeric_def is_digit_def)

theorem version_release_dotted_numeric_witness:
  "example_shared ''html_static_path'' = Some (PyList example_static_path) \<and>
   example_shared ''html_context'' = Some (Dict example_context) \<and>
   (\<exists>m v r. conf example_shared = Inr m \<and>
      m ''version'' = Some (Str v) \<and> v \<noteq> [] \<and> dotted_numeric v \<and>
      m ''release'' = Some (Str r) \<and> r \<noteq> [] \<and> dotted_numeric r)"
  using example_shared_path example_shared_context
    version_release_dotted_numeric [OF example_shared_path example_shared_context]
  by simp





text \<open>
  C1, as the code has it. The table stored under \<^verbatim>\<open>'NAV'\<close> and \<^verbatim>\<open>'LINKS'\<close> is an
  ordered sequence of (label, path) pairs of strings with exactly three entries.
\<close>

theorem nav_links_three_entries:
  assumes "shared ''html_static_path'' = Some (PyList sp)"
    and "shared ''html_context'' = Some (Dict ctx)"
  shows "\<exists>m nav. conf shared = Inr m \<and>
           html_context_get m (Str ''NAV'') = Some (Tuple nav) \<and>
           html_context_get m (Str ''LINKS'') = Some (Tuple nav) \<and>
           length nav = 3 \<and> list_all is_pair nav"
  using assms
  by (simp add: conf_unfold html_context_get_def dict_get_setitem NAV_def)

theorem nav_links_three_entries_witness:
  "example_shared ''html_static_path'' = Some (PyList example_static_path) \<and>
   example_shared ''html_context'' = Some (Dict example_context) \<and>
   (\<exists>m nav. conf example_shared = Inr m \<and>
      html_context_get m (Str ''NAV'') = Some (Tuple nav) \<and>
      html_context_get m (Str ''LINKS'') = Some (Tuple nav) \<and>
      length nav = 3 \<and> list_all is_pair nav)"
  using example_shared_path example_shared_context
    nav_links_three_entries [OF example_shared_path example_shared_context]
  by simp

text \<open>
  C1, as stated, fails: loaded over the example defaults, the table under \<^verbatim>\<open>'NAV'\<close>
  and under \<^verbatim>\<open>'LINKS'\<close> has three entries, not two.
\<close>

theorem nav_links_two_entries_counterexample:
  "map_option py_len (html_context_get (bound_names (conf example_shared)) (Str ''NAV'')) = Some 3 \<and>
   map_option py_len (html_context_get (bound_names (conf example_shared)) (Str ''NAV'')) \<noteq> Some 2 \<and>
   map_option py_len (html_context_get (bound_names (conf example_shared)) (Str ''LINKS'')) = Some 3 \<and>
   map_option py_len (html_context_get (bound_names (conf example_shared)) (Str ''LINKS'')) \<noteq> Some 2"
  by (simp add: conf_unfold example_shared_def example_context_def bound_names_def
      html_context_get_def NAV_def)

text \<open>
  C2, as the code has it. After the load \<^verbatim>\<open>html_context\<close> holds a value under each of
  the eight keys \<^verbatim>\<open>PROJECT\<close>, \<^verbatim>\<open>DESCRIPTION\<close>, \<^verbatim>\<open>AUTHOR\<close>, \<^verbatim>\<open>WEBSITE_SERVER\<close>,
  \<^verbatim>\<open>VERSION\<close>, \<^verbatim>\<open>NAV\<close>, \<^verbatim>\<open>LINKS\<close> and \<^verbatim>\<open>SOCIAL\<close>, and the values under
  \<^verbatim>\<open>PROJECT\<close>, \<^verbatim>\<open>DESCRIPTION\<close>, \<^verbatim>\<open>AUTHOR\<close>, \<^verbatim>\<open>VERSION\<close>, \<^verbatim>\<open>NAV\<close> and \<^verbatim>\<open>LINKS\<close>
  are those of \<^verbatim>\<open>project\<close>, \<^verbatim>\<open>description\<close>, \<^verbatim>\<open>authors\<close>, \<^verbatim>\<open>version\<close>, \<^verbatim>\<open>_NAV\<close>
  and \<^verbatim>\<open>_NAV\<close>.
\<close>

theorem context_eight_keys:
  assumes "shared ''html_static_path'' = Some (PyList sp)"
    and "shared ''html_context'' = Some (Dict ctx)"
  shows "\<exists>m. conf shared = Inr m \<and>
           length context_keys = 8 \<and> distinct context_keys \<and>
           list_all (\<lambda>k. html_context_get m k \<noteq> None) context_keys \<and>
           html_context_get m (Str ''PROJECT'') = m ''project'' \<and>
           html_context_get m (Str ''DESCRIPTION'') = m ''description'' \<and>
           html_context_get m (Str ''AUTHOR'') = m ''authors'' \<and>
           html_context_get m (Str ''VERSION'') = m ''version'' \<and>
           html_context_get m (Str ''NAV'') = m ''_NAV'' \<and>
           html_context_get m (Str ''LINKS'') = m ''_NAV''"
  using assms
  by (simp add: conf_unfold html_context_get_def dict_get_setitem context_keys_def)

theorem context_eight_keys_witness:
  "example_shared ''html_static_path'' = Some (PyList example_static_path) \<and>
   example_shared ''html_context'' = Some (Dict example_context) \<and>
   (\<exists>m. conf example_shared = Inr m \<and>
      length context_keys = 8 \<and> distinct context_keys \<and>
      list_all (\<lambda>k. html_context_get m k \<noteq> None) context_keys \<and>
      html_context_get m (Str ''PROJECT'') = m ''project'' \<and>
      html_context_get m (Str ''DESCRIPTION'') = m ''description'' \<and>
      html_context_get m (Str ''AUTHOR'') = m ''authors'' \<and>
      html_context_get m (Str ''VERSION'') = m ''version'' \<and>
      html_context_get m (Str ''NAV'') = m ''_NAV'' \<and>
      html_context_get m (Str ''LINKS'') = m ''_NAV'')"
  using example_shared_path example_shared_context
    context_eight_keys [OF example_shared_path example_shared_context]
  by simp

text \<open>
  C2, as stated, fails in its count: loaded over defaults whose context is empty,
  \<^verbatim>\<open>html_context\<close> holds exactly the keys the update writes, and they are eight, not
  seven.
\<close>

theorem context_seven_keys_counterexample:
  "map_option py_iter (bound_names (conf example_bare) ''html_context'') = Some context_keys \<and>
   map_option py_len (bound_names (conf example_bare) ''html_context'') = Some 8 \<and>
   map_option py_len (bound_names (conf example_bare) ''html_context'') \<noteq> Some 7"
  by (simp add: conf_unfold example_bare_def bound_names_def context_keys_def)

end
